theory Spec2Isabelle
  imports Main "HOL-Library.Word"
begin

section \<open>The command \<open>ipfs name verify-record\<close> (core/commands/name/name.go)\<close>

text \<open>
  The command reads a serialized IPNS record from a file argument, decodes the name it
  is to be checked against, finds a public key for that name, validates the record under
  the key and emits the record. Everything but the orchestration is done by other Go
  modules (gogo/protobuf, go-libp2p, go-ipns, go-ipfs-cmds); their functions are
  parameters of the model, collected in the record \<open>Library\<close>, so that every theorem
  about \<open>Run\<close> holds for whatever these functions compute. Go's \<open>[]byte\<close> and \<open>string\<close>
  are both sequences of bytes, here \<open>string\<close>.
\<close>

subsection \<open>Data\<close>

type_synonym bytes = string

text \<open>
  Modelled from the spec: the message type \<open>ipns_pb.IpnsEntry\<close> is declared in go-ipns,
  not in this repository; its fields are those of the spec's Record. The command reads
  \<open>Value\<close>, \<open>Ttl\<close> (a pointer to a 64-bit unsigned integer, nil when the record has
  none) and \<open>PubKey\<close>.
\<close>

datatype IpnsEntry_ValidityType = EOL | Unrecognized nat

record IpnsEntry =
  Value :: bytes
  ValidityType :: "IpnsEntry_ValidityType option"
  Validity :: bytes
  Sequence :: "64 word option"
  Ttl :: "64 word option"
  SignatureV1 :: bytes
  SignatureV2 :: bytes
  PubKey :: bytes

text \<open>
  The functions of other modules that \<open>Run\<close> and the text encoder call. A Go function
  returning \<open>(v, err)\<close> is a function into \<open>'e + 'v\<close> (\<open>Inl\<close> the error); one returning
  only \<open>error\<close> is a function into \<open>'e option\<close> (\<open>None\<close> is nil).
  \<^item> \<open>GetFileArg\<close>: cmdenv.GetFileArg on req.Files.Entries();
  \<^item> \<open>Copy\<close>: io.Copy into a buffer, then the buffer's bytes;
  \<^item> \<open>Unmarshal\<close>: proto.Unmarshal into an IpnsEntry;
  \<^item> \<open>Decode\<close>: peer.Decode;
  \<^item> \<open>ExtractPublicKey\<close>: peer.ID.ExtractPublicKey;
  \<^item> \<open>UnmarshalPublicKey\<close>: crypto.UnmarshalPublicKey;
  \<^item> \<open>Validate\<close>: ipns.Validate;
  \<^item> \<open>GetEOL\<close>: ipns.GetEOL;
  \<^item> \<open>EmitOnce\<close>: cmds.EmitOnce on the response emitter, whose state has the type
    \<open>'r\<close>: the error it returns and the emitter afterwards. It fails, for one, on an
    emitter that is already closed.
\<close>

record ('e, 'fs, 'f, 'id, 'pk, 't, 'r) Library =
  GetFileArg :: "'fs \<Rightarrow> 'e + 'f"
  Copy :: "'f \<Rightarrow> 'e + bytes"
  Unmarshal :: "bytes \<Rightarrow> 'e + IpnsEntry"
  Decode :: "string \<Rightarrow> 'e + 'id"
  ExtractPublicKey :: "'id \<Rightarrow> 'e + 'pk"
  UnmarshalPublicKey :: "bytes \<Rightarrow> 'e + 'pk"
  Validate :: "'pk \<Rightarrow> IpnsEntry \<Rightarrow> 'e option"
  GetEOL :: "IpnsEntry \<Rightarrow> 'e + 't"
  EmitOnce :: "'r \<Rightarrow> IpnsEntry \<Rightarrow> 'e option \<times> 'r"

text \<open>The request: the positional string arguments and the file arguments.\<close>

record 'fs Request =
  Arguments :: "string list"
  Files :: 'fs

text \<open>
  What a call of \<open>Run\<close> ends with: the error it returns (\<open>None\<close> is nil), or the
  run-time panic of \<open>req.Arguments[0]\<close> on an empty argument list.
\<close>

datatype 'e outcome = Panic | Return "'e option"

subsection \<open>strings.HasPrefix and strings.TrimPrefix\<close>

definition HasPrefix :: "string \<Rightarrow> string \<Rightarrow> bool" where
  "HasPrefix s pre \<longleftrightarrow> length s \<ge> length pre \<and> take (length pre) s = pre"

definition TrimPrefix :: "string \<Rightarrow> string \<Rightarrow> string" where
  "TrimPrefix s pre = (if HasPrefix s pre then drop (length pre) s else s)"

subsection \<open>Key resolution (lines 117 to 127 of \<open>Run\<close>)\<close>

text \<open>
  \<^verbatim>\<open>
  pub, err := id.ExtractPublicKey()
  if err != nil {
      if len(entry.PubKey) > 0 {
          pub, err = ic.UnmarshalPublicKey(entry.PubKey)
      }
  }
  if err != nil { return err }
  \<close>
  The value is the key \<open>pub\<close> that \<open>Run\<close> goes on with, or the error it returns.
\<close>

definition resolveKey ::
  "('e, 'fs, 'f, 'id, 'pk, 't, 'r) Library \<Rightarrow> 'id \<Rightarrow> IpnsEntry \<Rightarrow> 'e + 'pk" where
  "resolveKey lib pid entry =
     (case ExtractPublicKey lib pid of
        Inr pub \<Rightarrow> Inr pub
      | Inl err \<Rightarrow>
          if length (PubKey entry) > 0 then UnmarshalPublicKey lib (PubKey entry)
          else Inl err)"

subsection \<open>\<open>IpnsVerifyRecordCmd.Run\<close>\<close>

text \<open>
  \<open>Run\<close> takes the response emitter \<open>res\<close> and gives, with its outcome, the emitter
  afterwards. Every failing stage returns its error and leaves the emitter alone; the
  last statement is \<^verbatim>\<open>return cmds.EmitOnce(res, &entry)\<close>, so the error of the
  emitter, or nil, is what \<open>Run\<close> returns then.
\<close>

definition Run ::
  "('e, 'fs, 'f, 'id, 'pk, 't, 'r) Library \<Rightarrow> 'fs Request \<Rightarrow> 'r
     \<Rightarrow> 'e outcome \<times> 'r" where
  "Run lib req res =
     (case Arguments req of
        [] \<Rightarrow> (Panic, res)
      | arg0 # _ \<Rightarrow>
          (let key = TrimPrefix arg0 ''/ipns/'' in
           case GetFileArg lib (Files req) of
             Inl err \<Rightarrow> (Return (Some err), res)
           | Inr file \<Rightarrow>
          (case Copy lib file of
             Inl err \<Rightarrow> (Return (Some err), res)
           | Inr b \<Rightarrow>
          (case Unmarshal lib b of
             Inl err \<Rightarrow> (Return (Some err), res)
           | Inr entry \<Rightarrow>
          (case Decode lib key of
             Inl err \<Rightarrow> (Return (Some err), res)
           | Inr pid \<Rightarrow>
          (case resolveKey lib pid entry of
             Inl err \<Rightarrow> (Return (Some err), res)
           | Inr pub \<Rightarrow>
          (case Validate lib pub entry of
             Some err \<Rightarrow> (Return (Some err), res)
           | None \<Rightarrow> apfst Return (EmitOnce lib res entry))))))))"

subsection \<open>The stages of a run\<close>

text \<open>
  All four stages after reading succeed on the record bytes \<open>b\<close> and the name \<open>key\<close>:
  the record decodes, the name decodes, a key is resolved, and the record validates
  under that key.
\<close>

definition stagesSucceed ::
  "('e, 'fs, 'f, 'id, 'pk, 't, 'r) Library \<Rightarrow> string \<Rightarrow> bytes \<Rightarrow> bool" where
  "stagesSucceed lib key b \<longleftrightarrow>
     (\<exists>entry pid pub.
        Unmarshal lib b = Inr entry \<and> Decode lib key = Inr pid \<and>
        resolveKey lib pid entry = Inr pub \<and> Validate lib pub entry = None)"

subsection \<open>The text encoder (lines 138 to 154)\<close>

text \<open>
  The formatting done by Go's standard library on behalf of the encoder: \<open>Quote\<close> is
  the verb \<open>%q\<close> on a string, \<open>FormatRFC3339\<close> is \<open>Time.Format(time.RFC3339)\<close>, and
  \<open>Tabwriter\<close> maps the text written to the \<open>tabwriter.Writer\<close> (created with
  minwidth 0, tabwidth 0, padding 1, padchar space, no flags) to the text it writes to
  the underlying writer when flushed.
\<close>

record 't Formatting =
  Quote :: "string \<Rightarrow> string"
  FormatRFC3339 :: "'t \<Rightarrow> string"
  Tabwriter :: "string \<Rightarrow> string"

definition tab :: char where
  "tab = CHR 0x09"

definition nl :: char where
  "nl = CHR 0x0A"

text \<open>The verb \<open>%d\<close> on an unsigned integer: its decimal digits, no sign, no padding.\<close>

definition digitChar :: "nat \<Rightarrow> char" where
  "digitChar d = ''0123456789'' ! d"

function decimal :: "nat \<Rightarrow> string" where
  "decimal n = (if n < 10 then [digitChar n] else decimal (n div 10) @ [digitChar (n mod 10)])"
  by pat_completeness auto
termination
  by (relation "measure (\<lambda>n. n)") auto

declare decimal.simps [simp del]

text \<open>
  The encoder writes the heading to \<open>w\<close> itself and the rows to the tabwriter, which is
  flushed when the encoder returns (the deferred \<open>tw.Flush()\<close>). It returns nil in
  every case: an error of \<open>ipns.GetEOL\<close> only leaves the \<open>Validity\<close> row out. The
  value is the error returned and the content of \<open>w\<close> afterwards.
\<close>

definition Encoder ::
  "('e, 'fs, 'f, 'id, 'pk, 't, 'r) Library \<Rightarrow> 't Formatting \<Rightarrow> IpnsEntry \<Rightarrow> string
     \<Rightarrow> 'e option \<times> string" where
  "Encoder lib fmt out w =
     (let w1 = w @ ''Record is valid:'' @ [nl, nl];
          tw1 = ''Value:'' @ [tab] @ Quote fmt (Value out) @ [nl];
          tw2 = (case Ttl out of
                   Some ttl \<Rightarrow> tw1 @ ''TTL:'' @ [tab] @ decimal (unat ttl) @ [nl]
                 | None \<Rightarrow> tw1);
          tw3 = (case GetEOL lib out of
                   Inr validity \<Rightarrow>
                     tw2 @ ''Validity:'' @ [tab] @ FormatRFC3339 fmt validity @ [nl]
                 | Inl err \<Rightarrow> tw2)
      in (None, w1 @ Tabwriter fmt tw3))"

subsection \<open>Record validation as the spec describes it\<close>

text \<open>
  Modelled from the spec: \<open>ipns.Validate\<close> and \<open>ipns.GetEOL\<close> belong to the module
  go-ipns and are not among the sources; this is the spec's SignatureVerifier
  (\<open>verifyCurrent\<close>) followed by its ValidityCalculator (\<open>computeEOL\<close>), in the order of
  the spec's pipeline (SignatureChecked, then ValidityComputed). The canonical payload
  is the order-fixed tuple of value, validityType, validity, sequence and ttl; the
  key-type-specific signature check \<open>check\<close> and the timestamp parser \<open>parse\<close> are
  parameters.
\<close>

datatype spec_error =
  DecodeError | IdentityDecodeError | KeyResolutionError | SignatureError | ValidityError

type_synonym payload =
  "bytes \<times> IpnsEntry_ValidityType option \<times> bytes \<times> 64 word option \<times> 64 word option"

definition canonicalPayload :: "IpnsEntry \<Rightarrow> payload" where
  "canonicalPayload r = (Value r, ValidityType r, Validity r, Sequence r, Ttl r)"

definition verifyCurrent ::
  "('pk \<Rightarrow> payload \<Rightarrow> bytes \<Rightarrow> bool) \<Rightarrow> 'pk \<Rightarrow> IpnsEntry \<Rightarrow> spec_error option" where
  "verifyCurrent check pub r =
     (if check pub (canonicalPayload r) (SignatureV2 r) then None else Some SignatureError)"

definition computeEOL :: "(bytes \<Rightarrow> 't option) \<Rightarrow> IpnsEntry \<Rightarrow> spec_error + 't" where
  "computeEOL parse r =
     (if ValidityType r = Some EOL
      then (case parse (Validity r) of Some t \<Rightarrow> Inr t | None \<Rightarrow> Inl ValidityError)
      else Inl ValidityError)"

definition specValidate ::
  "('pk \<Rightarrow> payload \<Rightarrow> bytes \<Rightarrow> bool) \<Rightarrow> (bytes \<Rightarrow> 't option) \<Rightarrow> 'pk \<Rightarrow> IpnsEntry
     \<Rightarrow> spec_error option" where
  "specValidate check parse pub r =
     (case verifyCurrent check pub r of
        Some err \<Rightarrow> Some err
      | None \<Rightarrow> (case computeEOL parse r of Inl err \<Rightarrow> Some err | Inr t \<Rightarrow> None))"

subsection \<open>A small library for running the command on concrete inputs\<close>

text \<open>
  A test double of the other modules, used only to run \<open>Run\<close> on concrete requests.
  Names are \<open>ed:k\<close> (the key \<open>k\<close> itself is in the name) or \<open>rsa:k\<close> (only the hash
  of \<open>k\<close> is in the name); a key is its own marshalled form; the hash of a key is the
  key; the signature of the key \<open>k\<close> on a record is \<open>sig:k:\<close> followed by the
  record's value; a file is its content, absent when the request has none; the wire
  format of a record is a table of four records; the response emitter holds the values
  emitted so far, is closed by the one value \<open>EmitOnce\<close> hands it, and refuses a value
  once closed.
\<close>

datatype stub_emitter = Open "IpnsEntry list" | Closed "IpnsEntry list"

fun stubEmitOnce :: "stub_emitter \<Rightarrow> IpnsEntry \<Rightarrow> string option \<times> stub_emitter" where
  "stubEmitOnce (Open vs) v = (None, Closed (vs @ [v]))"
| "stubEmitOnce (Closed vs) v = (Some ''cmds: emit on closed emitter'', Closed vs)"

datatype stub_id = Inline string | Digest string

definition stubIDFromPublicKey :: "string \<Rightarrow> stub_id" where
  "stubIDFromPublicKey k = Digest k"

definition stubDecode :: "string \<Rightarrow> string + stub_id" where
  "stubDecode s =
     (if HasPrefix s ''ed:'' then Inr (Inline (drop 3 s))
      else if HasPrefix s ''rsa:'' then Inr (Digest (drop 4 s))
      else Inl ''failed to parse peer ID'')"

definition stubExtractPublicKey :: "stub_id \<Rightarrow> string + string" where
  "stubExtractPublicKey pid =
     (case pid of
        Inline k \<Rightarrow> Inr k
      | Digest h \<Rightarrow> Inl ''public key is not embedded in peer ID'')"

definition stubUnmarshalPublicKey :: "bytes \<Rightarrow> string + string" where
  "stubUnmarshalPublicKey b =
     (if HasPrefix b ''key-'' then Inr b else Inl ''malformed public key'')"

definition stubValidate :: "string \<Rightarrow> IpnsEntry \<Rightarrow> string option" where
  "stubValidate pub entry =
     (if SignatureV2 entry = ''sig:'' @ pub @ '':'' @ Value entry then None
      else Some ''invalid record signature'')"

definition stubGetEOL :: "IpnsEntry \<Rightarrow> string + string" where
  "stubGetEOL entry =
     (if ValidityType entry = Some EOL \<and> Validity entry \<noteq> [] then Inr (Validity entry)
      else Inl ''unrecognized validity type'')"

definition entryAlice :: IpnsEntry where
  "entryAlice =
     \<lparr>Value = ''target-A'', ValidityType = Some EOL, Validity = ''2030-01-01T00:00:00Z'',
      Sequence = Some 1, Ttl = None, SignatureV1 = [],
      SignatureV2 = ''sig:key-alice:target-A'', PubKey = []\<rparr>"

definition entryBob :: IpnsEntry where
  "entryBob =
     \<lparr>Value = ''target-B'', ValidityType = Some EOL, Validity = ''2031-06-01T12:00:00Z'',
      Sequence = Some 7, Ttl = Some 60000000000, SignatureV1 = [],
      SignatureV2 = ''sig:key-bob:target-B'', PubKey = ''key-bob''\<rparr>"

definition entryNoKey :: IpnsEntry where
  "entryNoKey =
     \<lparr>Value = ''target-C'', ValidityType = Some EOL, Validity = ''2031-06-01T12:00:00Z'',
      Sequence = Some 2, Ttl = None, SignatureV1 = [],
      SignatureV2 = ''sig:key-carol:target-C'', PubKey = []\<rparr>"

definition entryBadKey :: IpnsEntry where
  "entryBadKey =
     \<lparr>Value = ''target-D'', ValidityType = Some EOL, Validity = ''2031-06-01T12:00:00Z'',
      Sequence = Some 3, Ttl = None, SignatureV1 = [],
      SignatureV2 = ''sig:key-dave:target-D'', PubKey = ''garbage''\<rparr>"

definition stubUnmarshal :: "bytes \<Rightarrow> string + IpnsEntry" where
  "stubUnmarshal b =
     (if b = ''record-alice'' then Inr entryAlice
      else if b = ''record-bob'' then Inr entryBob
      else if b = ''record-nokey'' then Inr entryNoKey
      else if b = ''record-badkey'' then Inr entryBadKey
      else Inl ''proto: cannot parse record'')"

definition stubGetFileArg :: "bytes option \<Rightarrow> string + bytes" where
  "stubGetFileArg fs =
     (case fs of None \<Rightarrow> Inl ''file argument was nil'' | Some f \<Rightarrow> Inr f)"

definition stubLibrary ::
  "(string, bytes option, bytes, stub_id, string, string, stub_emitter) Library" where
  "stubLibrary =
     \<lparr>GetFileArg = stubGetFileArg, Copy = Inr, Unmarshal = stubUnmarshal,
      Decode = stubDecode, ExtractPublicKey = stubExtractPublicKey,
      UnmarshalPublicKey = stubUnmarshalPublicKey, Validate = stubValidate,
      GetEOL = stubGetEOL, EmitOnce = stubEmitOnce\<rparr>"

definition stubQuote :: "string \<Rightarrow> string" where
  "stubQuote s = [CHR 0x22] @ s @ [CHR 0x22]"

definition stubTabwriter :: "string \<Rightarrow> string" where
  "stubTabwriter s = map (\<lambda>c. if c = tab then CHR '' '' else c) s"

definition stubFormatting :: "string Formatting" where
  "stubFormatting =
     \<lparr>Quote = stubQuote, FormatRFC3339 = (\<lambda>t. t), Tabwriter = stubTabwriter\<rparr>"

text \<open>
  For the validation the spec describes: the signature check of the test double, and a
  timestamp parser that accepts the texts of twenty characters. The emitter of this
  library is the list of the values emitted and accepts every value.
\<close>

definition stubCheck :: "string \<Rightarrow> payload \<Rightarrow> bytes \<Rightarrow> bool" where
  "stubCheck pub p sig \<longleftrightarrow> sig = ''sig:'' @ pub @ '':'' @ fst p"

definition stubParse :: "bytes \<Rightarrow> string option" where
  "stubParse v = (if length v = 20 then Some v else None)"

definition entryBadValidity :: IpnsEntry where
  "entryBadValidity =
     \<lparr>Value = ''target-E'', ValidityType = Some EOL, Validity = ''tomorrow'',
      Sequence = Some 4, Ttl = None, SignatureV1 = [],
      SignatureV2 = ''sig:key-erin:target-E'', PubKey = []\<rparr>"

definition specLibrary ::
  "(spec_error, bytes option, bytes, stub_id, string, string, IpnsEntry list) Library" where
  "specLibrary =
     \<lparr>GetFileArg = (\<lambda>fs. case fs of None \<Rightarrow> Inl DecodeError | Some f \<Rightarrow> Inr f),
      Copy = Inr,
      Unmarshal = (\<lambda>b. if b = ''record-badvalidity'' then Inr entryBadValidity
                        else case stubUnmarshal b of
                               Inl e \<Rightarrow> Inl DecodeError
                             | Inr entry \<Rightarrow> Inr entry),
      Decode = (\<lambda>s. case stubDecode s of Inl e \<Rightarrow> Inl IdentityDecodeError | Inr i \<Rightarrow> Inr i),
      ExtractPublicKey = (\<lambda>i. case i of Inline k \<Rightarrow> Inr k | Digest h \<Rightarrow> Inl KeyResolutionError),
      UnmarshalPublicKey = (\<lambda>b. if HasPrefix b ''key-'' then Inr b else Inl KeyResolutionError),
      Validate = specValidate stubCheck stubParse,
      GetEOL = computeEOL stubParse,
      EmitOnce = (\<lambda>res v. (None, res @ [v]))\<rparr>"

lemmas stub_defs =
  stubLibrary_def stubGetFileArg_def stubUnmarshal_def stubDecode_def
  stubExtractPublicKey_def stubUnmarshalPublicKey_def stubValidate_def stubGetEOL_def
  stubIDFromPublicKey_def entryAlice_def entryBob_def entryNoKey_def entryBadKey_def
  HasPrefix_def TrimPrefix_def stubQuote_def stubTabwriter_def stubFormatting_def
  stubCheck_def stubParse_def entryBadValidity_def specLibrary_def

section \<open>Properties of the prefix stripping\<close>

lemma TrimPrefix_append: "TrimPrefix (pre @ k) pre = k"
  by (simp add: TrimPrefix_def HasPrefix_def)

lemma TrimPrefix_no_prefix: "\<not> HasPrefix k pre \<Longrightarrow> TrimPrefix k pre = k"
  by (simp add: TrimPrefix_def)

text \<open>
  Claim C8. For every name \<open>k\<close> that does not itself begin with \<open>/ipns/\<close>, running the
  command with the argument \<open>/ipns/\<close> followed by \<open>k\<close> ends exactly as running it with
  \<open>k\<close>: the same returned error or nil and the same emitted values. The prefix is
  stripped before the name is decoded, so both runs decode \<open>k\<close>.
\<close>

theorem Run_strips_ipns_prefix:
  assumes "\<not> HasPrefix k ''/ipns/''"
  shows "Run lib \<lparr>Arguments = (''/ipns/'' @ k) # rest, Files = fs\<rparr> res
           = Run lib \<lparr>Arguments = k # rest, Files = fs\<rparr> res
         \<and> TrimPrefix (''/ipns/'' @ k) ''/ipns/'' = k \<and> TrimPrefix k ''/ipns/'' = k"
proof -
  have a: "TrimPrefix (''/ipns/'' @ k) ''/ipns/'' = k"
    by (rule TrimPrefix_append)
  have b: "TrimPrefix k ''/ipns/'' = k"
    using assms by (rule TrimPrefix_no_prefix)
  show ?thesis
    unfolding Run_def using a b by simp
qed

theorem Run_strips_ipns_prefix_witness:
  "\<not> HasPrefix ''ed:key-alice'' ''/ipns/''
   \<and> Run stubLibrary \<lparr>Arguments = [''/ipns/ed:key-alice''], Files = Some ''record-alice''\<rparr> (Open [])
       = Run stubLibrary \<lparr>Arguments = [''ed:key-alice''], Files = Some ''record-alice''\<rparr> (Open [])
   \<and> Run stubLibrary \<lparr>Arguments = [''ed:key-alice''], Files = Some ''record-alice''\<rparr> (Open [])
       = (Return None, Closed [entryAlice])"
proof -
  have h: "\<not> HasPrefix ''ed:key-alice'' ''/ipns/''"
    by (simp add: HasPrefix_def)
  have r: "Run stubLibrary \<lparr>Arguments = [''ed:key-alice''], Files = Some ''record-alice''\<rparr> (Open [])
       = (Return None, Closed [entryAlice])"
    by (simp add: Run_def resolveKey_def stub_defs)
  show ?thesis
    using h r Run_strips_ipns_prefix [OF h, of stubLibrary "[]" "Some ''record-alice''" "Open []"]
    by simp
qed

section \<open>Key resolution\<close>

lemma resolveKey_extracted:
  "ExtractPublicKey lib pid = Inr pub \<Longrightarrow> resolveKey lib pid entry = Inr pub"
  by (simp add: resolveKey_def)

lemma resolveKey_fallback:
  "ExtractPublicKey lib pid = Inl e \<Longrightarrow> PubKey entry \<noteq> [] \<Longrightarrow>
   resolveKey lib pid entry = UnmarshalPublicKey lib (PubKey entry)"
  by (simp add: resolveKey_def)

lemma resolveKey_no_key:
  "ExtractPublicKey lib pid = Inl e \<Longrightarrow> PubKey entry = [] \<Longrightarrow>
   resolveKey lib pid entry = Inl e"
  by (simp add: resolveKey_def)

text \<open>What \<open>Run\<close> does once the record is read and decoded and the name is decoded.\<close>

lemma Run_after_decoding:
  assumes "Arguments req = arg0 # rest"
    and "GetFileArg lib (Files req) = Inr f"
    and "Copy lib f = Inr b"
    and "Unmarshal lib b = Inr entry"
    and "Decode lib (TrimPrefix arg0 ''/ipns/'') = Inr pid"
  shows "Run lib req res =
           (case resolveKey lib pid entry of
              Inl err \<Rightarrow> (Return (Some err), res)
            | Inr pub \<Rightarrow>
                (case Validate lib pub entry of
                   Some err \<Rightarrow> (Return (Some err), res)
                 | None \<Rightarrow> apfst Return (EmitOnce lib res entry)))"
  using assms by (simp add: Run_def split: sum.splits option.splits)

text \<open>
  Claim C2. For every name from which a public key can be extracted directly, key
  resolution yields that extracted key, whatever the record's \<open>PubKey\<close> field holds and
  whatever unmarshalling it would give: replacing the field by any bytes \<open>pk\<close> and
  \<open>crypto.UnmarshalPublicKey\<close> by any function \<open>u\<close> leaves the resolved key the same, and
  the whole run of the command does not depend on \<open>u\<close>.
\<close>

theorem resolveKey_trusts_identity_key:
  assumes "ExtractPublicKey lib pid = Inr pub"
  shows "resolveKey lib pid entry = Inr pub
         \<and> resolveKey (lib\<lparr>UnmarshalPublicKey := u\<rparr>) pid (entry\<lparr>PubKey := pk\<rparr>) = Inr pub
         \<and> (Arguments req = arg0 # rest \<and> Decode lib (TrimPrefix arg0 ''/ipns/'') = Inr pid
              \<longrightarrow> Run (lib\<lparr>UnmarshalPublicKey := u\<rparr>) req res = Run lib req res)"
proof (intro conjI impI)
  show "resolveKey lib pid entry = Inr pub"
    using assms by (rule resolveKey_extracted)
  show "resolveKey (lib\<lparr>UnmarshalPublicKey := u\<rparr>) pid (entry\<lparr>PubKey := pk\<rparr>) = Inr pub"
    using assms by (simp add: resolveKey_def)
next
  assume h: "Arguments req = arg0 # rest \<and> Decode lib (TrimPrefix arg0 ''/ipns/'') = Inr pid"
  show "Run (lib\<lparr>UnmarshalPublicKey := u\<rparr>) req res = Run lib req res"
    using h assms by (simp add: Run_def resolveKey_def split: sum.splits option.splits)
qed

theorem resolveKey_trusts_identity_key_witness:
  "ExtractPublicKey stubLibrary (Inline ''key-alice'') = Inr ''key-alice''
   \<and> resolveKey stubLibrary (Inline ''key-alice'') entryBob = Inr ''key-alice''
   \<and> PubKey entryBob = ''key-bob''
   \<and> resolveKey (stubLibrary\<lparr>UnmarshalPublicKey := (\<lambda>b. Inr ''key-mallory'')\<rparr>)
        (Inline ''key-alice'') (entryBob\<lparr>PubKey := ''key-mallory''\<rparr>) = Inr ''key-alice''
   \<and> Arguments \<lparr>Arguments = [''ed:key-alice''], Files = Some ''record-bob''\<rparr>
        = ''ed:key-alice'' # []
   \<and> Decode stubLibrary (TrimPrefix ''ed:key-alice'' ''/ipns/'') = Inr (Inline ''key-alice'')
   \<and> Run (stubLibrary\<lparr>UnmarshalPublicKey := (\<lambda>b. Inr ''key-mallory'')\<rparr>)
        \<lparr>Arguments = [''ed:key-alice''], Files = Some ''record-bob''\<rparr> (Open [])
       = Run stubLibrary \<lparr>Arguments = [''ed:key-alice''], Files = Some ''record-bob''\<rparr> (Open [])"
proof -
  have h: "ExtractPublicKey stubLibrary (Inline ''key-alice'') = Inr ''key-alice''"
    by (simp add: stub_defs)
  have d: "Decode stubLibrary (TrimPrefix ''ed:key-alice'' ''/ipns/'') = Inr (Inline ''key-alice'')"
    by (simp add: stub_defs)
  have p: "PubKey entryBob = ''key-bob''"
    by (simp add: entryBob_def)
  show ?thesis
    using h d p
      resolveKey_trusts_identity_key [OF h, of entryBob "\<lambda>b. Inr ''key-mallory''" "''key-mallory''"
        "\<lparr>Arguments = [''ed:key-alice''], Files = Some ''record-bob''\<rparr>" "''ed:key-alice''" "[]" "Open []"]
    by simp
qed

text \<open>
  Claim C3. For every name that decodes but from which no public key can be extracted,
  if the decoded record's \<open>PubKey\<close> field is empty, the command returns the error of the
  key extraction (the failure of key resolution for lack of a key source), emits
  nothing, and the record is never validated: the run ends the same whatever
  \<open>ipns.Validate\<close> would answer.
\<close>

theorem Run_no_key_source:
  assumes "Arguments req = arg0 # rest"
    and "GetFileArg lib (Files req) = Inr f"
    and "Copy lib f = Inr b"
    and "Unmarshal lib b = Inr entry"
    and "Decode lib (TrimPrefix arg0 ''/ipns/'') = Inr pid"
    and "ExtractPublicKey lib pid = Inl e"
    and "PubKey entry = []"
  shows "Run lib req res = (Return (Some e), res)
         \<and> (\<forall>v. Run (lib\<lparr>Validate := v\<rparr>) req res = (Return (Some e), res))"
proof
  have k: "resolveKey lib pid entry = Inl e"
    using assms(6,7) by (rule resolveKey_no_key)
  show "Run lib req res = (Return (Some e), res)"
    using Run_after_decoding [OF assms(1-5)] k by simp
  show "\<forall>v. Run (lib\<lparr>Validate := v\<rparr>) req res = (Return (Some e), res)"
  proof
    fix v
    have k': "resolveKey (lib\<lparr>Validate := v\<rparr>) pid entry = Inl e"
      using assms(6,7) by (simp add: resolveKey_def)
    show "Run (lib\<lparr>Validate := v\<rparr>) req res = (Return (Some e), res)"
      using assms(1-5) k' by (simp add: Run_def)
  qed
qed

theorem Run_no_key_source_witness:
  "Run stubLibrary \<lparr>Arguments = [''/ipns/rsa:key-carol''], Files = Some ''record-nokey''\<rparr> (Open [])
     = (Return (Some ''public key is not embedded in peer ID''), Open [])
   \<and> (\<forall>v. Run (stubLibrary\<lparr>Validate := v\<rparr>)
            \<lparr>Arguments = [''/ipns/rsa:key-carol''], Files = Some ''record-nokey''\<rparr> (Open [])
          = (Return (Some ''public key is not embedded in peer ID''), Open []))
   \<and> PubKey entryNoKey = []"
proof -
  let ?req = "\<lparr>Arguments = [''/ipns/rsa:key-carol''], Files = Some ''record-nokey''\<rparr>"
  have a: "Arguments ?req = ''/ipns/rsa:key-carol'' # []" by simp
  have g: "GetFileArg stubLibrary (Files ?req) = Inr ''record-nokey''"
    by (simp add: stub_defs)
  have c: "Copy stubLibrary ''record-nokey'' = Inr ''record-nokey''"
    by (simp add: stub_defs)
  have u: "Unmarshal stubLibrary ''record-nokey'' = Inr entryNoKey"
    by (simp add: stubLibrary_def stubUnmarshal_def)
  have d: "Decode stubLibrary (TrimPrefix ''/ipns/rsa:key-carol'' ''/ipns/'')
             = Inr (Digest ''key-carol'')"
    by (simp add: stub_defs)
  have x: "ExtractPublicKey stubLibrary (Digest ''key-carol'')
             = Inl ''public key is not embedded in peer ID''"
    by (simp add: stub_defs)
  have p: "PubKey entryNoKey = []"
    by (simp add: entryNoKey_def)
  show ?thesis
    using Run_no_key_source [OF a g c u d x p, of "Open []"] p by simp
qed

text \<open>
  Claim C10. When extracting a public key from the name fails with the error \<open>e\<close>: if
  the record's \<open>PubKey\<close> field is not empty, key resolution is the unmarshalling of that
  field, so an error \<open>e'\<close> of the unmarshalling is the error the command returns and \<open>e\<close>
  is dropped; if the field is empty, the command returns \<open>e\<close> itself.
\<close>

theorem Run_key_fallback_errors:
  assumes "Arguments req = arg0 # rest"
    and "GetFileArg lib (Files req) = Inr f"
    and "Copy lib f = Inr b"
    and "Unmarshal lib b = Inr entry"
    and "Decode lib (TrimPrefix arg0 ''/ipns/'') = Inr pid"
    and "ExtractPublicKey lib pid = Inl e"
  shows "(PubKey entry \<noteq> [] \<longrightarrow>
            resolveKey lib pid entry = UnmarshalPublicKey lib (PubKey entry))
         \<and> (PubKey entry \<noteq> [] \<and> UnmarshalPublicKey lib (PubKey entry) = Inl e' \<longrightarrow>
              Run lib req res = (Return (Some e'), res))
         \<and> (PubKey entry = [] \<longrightarrow>
              resolveKey lib pid entry = Inl e \<and> Run lib req res = (Return (Some e), res))"
proof (intro conjI impI)
  assume "PubKey entry \<noteq> []"
  with assms(6) show "resolveKey lib pid entry = UnmarshalPublicKey lib (PubKey entry)"
    by (rule resolveKey_fallback)
next
  assume h: "PubKey entry \<noteq> [] \<and> UnmarshalPublicKey lib (PubKey entry) = Inl e'"
  then have "resolveKey lib pid entry = Inl e'"
    using resolveKey_fallback [OF assms(6), of entry] by simp
  then show "Run lib req res = (Return (Some e'), res)"
    using Run_after_decoding [OF assms(1-5)] by simp
next
  assume h: "PubKey entry = []"
  with assms(6) show k: "resolveKey lib pid entry = Inl e"
    by (rule resolveKey_no_key)
  then show "Run lib req res = (Return (Some e), res)"
    using Run_after_decoding [OF assms(1-5)] by simp
qed

theorem Run_key_fallback_errors_witness:
  "PubKey entryBadKey \<noteq> []
   \<and> UnmarshalPublicKey stubLibrary (PubKey entryBadKey) = Inl ''malformed public key''
   \<and> ExtractPublicKey stubLibrary (Digest ''key-dave'')
       = Inl ''public key is not embedded in peer ID''
   \<and> Run stubLibrary \<lparr>Arguments = [''rsa:key-dave''], Files = Some ''record-badkey''\<rparr> (Open [])
       = (Return (Some ''malformed public key''), Open [])
   \<and> PubKey entryNoKey = []
   \<and> Run stubLibrary \<lparr>Arguments = [''rsa:key-dave''], Files = Some ''record-nokey''\<rparr> (Open [])
       = (Return (Some ''public key is not embedded in peer ID''), Open [])"
proof -
  let ?r1 = "\<lparr>Arguments = [''rsa:key-dave''], Files = Some ''record-badkey''\<rparr>"
  let ?r2 = "\<lparr>Arguments = [''rsa:key-dave''], Files = Some ''record-nokey''\<rparr>"
  have a1: "Arguments ?r1 = ''rsa:key-dave'' # []" by simp
  have a2: "Arguments ?r2 = ''rsa:key-dave'' # []" by simp
  have g1: "GetFileArg stubLibrary (Files ?r1) = Inr ''record-badkey''"
    by (simp add: stub_defs)
  have g2: "GetFileArg stubLibrary (Files ?r2) = Inr ''record-nokey''"
    by (simp add: stub_defs)
  have c1: "Copy stubLibrary ''record-badkey'' = Inr ''record-badkey''"
    by (simp add: stub_defs)
  have c2: "Copy stubLibrary ''record-nokey'' = Inr ''record-nokey''"
    by (simp add: stub_defs)
  have u1: "Unmarshal stubLibrary ''record-badkey'' = Inr entryBadKey"
    by (simp add: stubLibrary_def stubUnmarshal_def)
  have u2: "Unmarshal stubLibrary ''record-nokey'' = Inr entryNoKey"
    by (simp add: stubLibrary_def stubUnmarshal_def)
  have d: "Decode stubLibrary (TrimPrefix ''rsa:key-dave'' ''/ipns/'') = Inr (Digest ''key-dave'')"
    by (simp add: stub_defs)
  have x: "ExtractPublicKey stubLibrary (Digest ''key-dave'')
             = Inl ''public key is not embedded in peer ID''"
    by (simp add: stub_defs)
  have p1: "PubKey entryBadKey \<noteq> []"
    by (simp add: entryBadKey_def)
  have m1: "UnmarshalPublicKey stubLibrary (PubKey entryBadKey) = Inl ''malformed public key''"
    by (simp add: stub_defs)
  have p2: "PubKey entryNoKey = []"
    by (simp add: entryNoKey_def)
  show ?thesis
    using Run_key_fallback_errors [OF a1 g1 c1 u1 d x, of "''malformed public key''" "Open []"]
      Run_key_fallback_errors [OF a2 g2 c2 u2 d x, of "''malformed public key''" "Open []"]
      p1 m1 p2 x
    by simp
qed

section \<open>Emission\<close>

text \<open>
  The claim C7 as stated, that a verified record is emitted whenever every stage
  succeeds, fails on an emitter that refuses the value: here all four stages succeed,
  the emitter is already closed, the command returns the emitter's error and nothing
  is emitted.
\<close>

theorem stages_succeed_nothing_emitted:
  "stagesSucceed stubLibrary (TrimPrefix ''/ipns/ed:key-alice'' ''/ipns/'') ''record-alice''
   \<and> Run stubLibrary \<lparr>Arguments = [''/ipns/ed:key-alice''], Files = Some ''record-alice''\<rparr>
         (Closed [])
       = (Return (Some ''cmds: emit on closed emitter''), Closed [])"
proof
  show "stagesSucceed stubLibrary (TrimPrefix ''/ipns/ed:key-alice'' ''/ipns/'') ''record-alice''"
    unfolding stagesSucceed_def
    by (intro exI [of _ entryAlice] exI [of _ "Inline ''key-alice''"] exI [of _ "''key-alice''"])
      (simp add: resolveKey_def stub_defs)
  show "Run stubLibrary \<lparr>Arguments = [''/ipns/ed:key-alice''], Files = Some ''record-alice''\<rparr>
         (Closed [])
       = (Return (Some ''cmds: emit on closed emitter''), Closed [])"
    by (simp add: Run_def resolveKey_def stub_defs)
qed

text \<open>
  Claim C7, amended. For every record bytes \<open>b\<close> read from the file argument and every
  name argument: if all four stages (record decoding, name decoding, key resolution,
  validation) succeed, the command hands the decoded record, whole, to the emitter and
  returns what \<open>cmds.EmitOnce\<close> returns, with the emitter as \<open>cmds.EmitOnce\<close> leaves
  it; if any stage fails, the command returns an error and the emitter is left as it
  was. So the emitter is handed a value if and only if all stages succeed, and it is
  never handed anything but the decoded record.
\<close>

theorem Run_emit_or_error:
  assumes "Arguments req = arg0 # rest"
    and "GetFileArg lib (Files req) = Inr f"
    and "Copy lib f = Inr b"
  shows "(stagesSucceed lib (TrimPrefix arg0 ''/ipns/'') b \<longrightarrow>
            (\<exists>entry. Unmarshal lib b = Inr entry
                      \<and> Run lib req res = apfst Return (EmitOnce lib res entry)))
         \<and> (\<not> stagesSucceed lib (TrimPrefix arg0 ''/ipns/'') b \<longrightarrow>
              (\<exists>err. Run lib req res = (Return (Some err), res)))"
proof -
  let ?key = "TrimPrefix arg0 ''/ipns/''"
  have ok: "\<exists>entry. Unmarshal lib b = Inr entry
                    \<and> Run lib req res = apfst Return (EmitOnce lib res entry)"
    if "stagesSucceed lib ?key b"
  proof -
    from that obtain entry pid pub where
      s: "Unmarshal lib b = Inr entry" "Decode lib ?key = Inr pid"
         "resolveKey lib pid entry = Inr pub" "Validate lib pub entry = None"
      unfolding stagesSucceed_def by blast
    have "Run lib req res = apfst Return (EmitOnce lib res entry)"
      using Run_after_decoding [OF assms s(1,2)] s(3,4) by simp
    with s(1) show ?thesis by blast
  qed
  have bad: "\<exists>err. Run lib req res = (Return (Some err), res)"
    if n: "\<not> stagesSucceed lib ?key b"
  proof (cases "Unmarshal lib b")
    case (Inl err)
    then show ?thesis using assms by (simp add: Run_def)
  next
    case u: (Inr entry)
    show ?thesis
    proof (cases "Decode lib ?key")
      case (Inl err)
      then show ?thesis using assms u by (simp add: Run_def)
    next
      case d: (Inr pid)
      show ?thesis
      proof (cases "resolveKey lib pid entry")
        case (Inl err)
        then show ?thesis using Run_after_decoding [OF assms u d] by simp
      next
        case k: (Inr pub)
        show ?thesis
        proof (cases "Validate lib pub entry")
          case None
          with u d k have "stagesSucceed lib ?key b"
            unfolding stagesSucceed_def by blast
          with n show ?thesis by simp
        next
          case (Some err)
          then show ?thesis using Run_after_decoding [OF assms u d] k by simp
        qed
      qed
    qed
  qed
  show ?thesis using ok bad by blast
qed

theorem Run_emit_or_error_witness:
  "stagesSucceed stubLibrary (TrimPrefix ''/ipns/ed:key-alice'' ''/ipns/'') ''record-alice''
   \<and> Run stubLibrary \<lparr>Arguments = [''/ipns/ed:key-alice''], Files = Some ''record-alice''\<rparr>
         (Open [])
       = (Return None, Closed [entryAlice])
   \<and> \<not> stagesSucceed stubLibrary (TrimPrefix ''/ipns/ed:key-bob'' ''/ipns/'') ''record-alice''
   \<and> (\<exists>err. Run stubLibrary
               \<lparr>Arguments = [''/ipns/ed:key-bob''], Files = Some ''record-alice''\<rparr> (Open [])
             = (Return (Some err), Open []))"
proof -
  let ?r1 = "\<lparr>Arguments = [''/ipns/ed:key-alice''], Files = Some ''record-alice''\<rparr>"
  let ?r2 = "\<lparr>Arguments = [''/ipns/ed:key-bob''], Files = Some ''record-alice''\<rparr>"
  have a1: "Arguments ?r1 = ''/ipns/ed:key-alice'' # []" by simp
  have a2: "Arguments ?r2 = ''/ipns/ed:key-bob'' # []" by simp
  have g1: "GetFileArg stubLibrary (Files ?r1) = Inr ''record-alice''"
    by (simp add: stub_defs)
  have g2: "GetFileArg stubLibrary (Files ?r2) = Inr ''record-alice''"
    by (simp add: stub_defs)
  have c: "Copy stubLibrary ''record-alice'' = Inr ''record-alice''"
    by (simp add: stub_defs)
  have u: "Unmarshal stubLibrary ''record-alice'' = Inr entryAlice"
    by (simp add: stubLibrary_def stubUnmarshal_def)
  have e: "EmitOnce stubLibrary (Open []) entryAlice = (None, Closed [entryAlice])"
    by (simp add: stubLibrary_def)
  have s1: "stagesSucceed stubLibrary (TrimPrefix ''/ipns/ed:key-alice'' ''/ipns/'') ''record-alice''"
    unfolding stagesSucceed_def
    by (intro exI [of _ entryAlice] exI [of _ "Inline ''key-alice''"] exI [of _ "''key-alice''"])
      (simp add: resolveKey_def stub_defs)
  have s2: "\<not> stagesSucceed stubLibrary (TrimPrefix ''/ipns/ed:key-bob'' ''/ipns/'') ''record-alice''"
    unfolding stagesSucceed_def
    by (simp add: resolveKey_def stub_defs)
  show ?thesis
    using s1 s2 u e
      Run_emit_or_error [OF a1 g1 c, of "Open []"]
      Run_emit_or_error [OF a2 g2 c, of "Open []"]
    by simp
qed

section \<open>The output of a verified record\<close>

lemma decimal_example: "decimal 60000000000 = ''60000000000''"
  by (simp add: decimal.simps digitChar_def)

text \<open>
  The claim C6 as stated, that every record signed with the private key verifies
  against the name derived from the public key, fails on the code in two ways.
  First, for a name that is only the hash of the key, a correctly signed record with a
  well-formed validity that does not carry the key is refused with the error of the
  key extraction: the command has no other source for the key. Second, on an emitter
  that refuses the value the command returns the emitter's error although every stage
  succeeded.
\<close>

theorem signed_record_refused:
  "stubCheck ''key-carol'' (canonicalPayload entryNoKey) (SignatureV2 entryNoKey)
   \<and> computeEOL stubParse entryNoKey = Inr ''2031-06-01T12:00:00Z''
   \<and> Validate specLibrary ''key-carol'' entryNoKey = None
   \<and> Decode specLibrary (TrimPrefix ''/ipns/rsa:key-carol'' ''/ipns/'')
       = Inr (stubIDFromPublicKey ''key-carol'')
   \<and> Run specLibrary \<lparr>Arguments = [''/ipns/rsa:key-carol''], Files = Some ''record-nokey''\<rparr> []
       = (Return (Some KeyResolutionError), [])
   \<and> Validate stubLibrary ''key-alice'' entryAlice = None
   \<and> Run stubLibrary \<lparr>Arguments = [''ed:key-alice''], Files = Some ''record-alice''\<rparr>
         (Closed [])
       = (Return (Some ''cmds: emit on closed emitter''), Closed [])"
proof (intro conjI)
  show "stubCheck ''key-carol'' (canonicalPayload entryNoKey) (SignatureV2 entryNoKey)"
    by (simp add: stubCheck_def canonicalPayload_def entryNoKey_def)
  show "computeEOL stubParse entryNoKey = Inr ''2031-06-01T12:00:00Z''"
    by (simp add: computeEOL_def stubParse_def entryNoKey_def)
  show "Validate specLibrary ''key-carol'' entryNoKey = None"
    by (simp add: specLibrary_def specValidate_def verifyCurrent_def computeEOL_def
        stubCheck_def stubParse_def canonicalPayload_def entryNoKey_def)
  show "Decode specLibrary (TrimPrefix ''/ipns/rsa:key-carol'' ''/ipns/'')
       = Inr (stubIDFromPublicKey ''key-carol'')"
    by (simp add: specLibrary_def stubDecode_def stubIDFromPublicKey_def HasPrefix_def
        TrimPrefix_def)
  show "Run specLibrary \<lparr>Arguments = [''/ipns/rsa:key-carol''], Files = Some ''record-nokey''\<rparr> []
       = (Return (Some KeyResolutionError), [])"
    by (simp add: Run_def resolveKey_def specLibrary_def stubDecode_def stubUnmarshal_def
        HasPrefix_def TrimPrefix_def entryNoKey_def)
  show "Validate stubLibrary ''key-alice'' entryAlice = None"
    by (simp add: stub_defs)
  show "Run stubLibrary \<lparr>Arguments = [''ed:key-alice''], Files = Some ''record-alice''\<rparr>
         (Closed [])
       = (Return (Some ''cmds: emit on closed emitter''), Closed [])"
    by (simp add: Run_def resolveKey_def stub_defs)
qed

text \<open>
  Claim C6, amended. With \<open>ipns.Validate\<close> and \<open>ipns.GetEOL\<close> as the spec describes
  them: for every key \<open>pub\<close> and every record with validity type \<open>EOL\<close> and a validity
  that parses as the time \<open>t\<close>, whose current-scheme signature verifies under \<open>pub\<close>,
  and every name that either carries \<open>pub\<close> itself or carries no key while the record
  carries \<open>pub\<close> in its \<open>PubKey\<close> field: the command hands the decoded record, unchanged,
  to the emitter and returns what \<open>cmds.EmitOnce\<close> returns (nil when the emitter takes
  the value), and the text encoder returns nil and writes the heading followed by the
  table of exactly these rows: the record's quoted value; its ttl in decimal, as
  stored, only when the record has one; and the end-of-life time \<open>t\<close>.
\<close>

theorem signed_record_output:
  assumes "Arguments req = arg0 # rest"
    and "GetFileArg lib (Files req) = Inr f"
    and "Copy lib f = Inr b"
    and "Unmarshal lib b = Inr entry"
    and "Decode lib (TrimPrefix arg0 ''/ipns/'') = Inr pid"
    and "ExtractPublicKey lib pid = Inr pub
         \<or> (ExtractPublicKey lib pid = Inl e \<and> PubKey entry \<noteq> []
             \<and> UnmarshalPublicKey lib (PubKey entry) = Inr pub)"
    and "Validate lib = specValidate check parse"
    and "GetEOL lib = computeEOL parse"
    and "check pub (canonicalPayload entry) (SignatureV2 entry)"
    and "ValidityType entry = Some EOL"
    and "parse (Validity entry) = Some t"
  shows "Run lib req res = apfst Return (EmitOnce lib res entry)
         \<and> (EmitOnce lib res entry = (None, res') \<longrightarrow> Run lib req res = (Return None, res'))
         \<and> Encoder lib fmt entry w =
             (None,
              w @ ''Record is valid:'' @ [nl, nl] @
              Tabwriter fmt
                (''Value:'' @ [tab] @ Quote fmt (Value entry) @ [nl] @
                 (case Ttl entry of
                    None \<Rightarrow> []
                  | Some ttl \<Rightarrow> ''TTL:'' @ [tab] @ decimal (unat ttl) @ [nl]) @
                 ''Validity:'' @ [tab] @ FormatRFC3339 fmt t @ [nl]))"
proof (intro conjI impI)
  have k: "resolveKey lib pid entry = Inr pub"
    using assms(6) by (auto simp add: resolveKey_def)
  have "verifyCurrent check pub entry = None"
    using assms(9) by (simp add: verifyCurrent_def)
  moreover have eol: "computeEOL parse entry = Inr t"
    using assms(10,11) by (simp add: computeEOL_def)
  ultimately have v: "Validate lib pub entry = None"
    using assms(7) by (simp add: specValidate_def)
  show r: "Run lib req res = apfst Return (EmitOnce lib res entry)"
    using Run_after_decoding [OF assms(1-5)] k v by simp
  show "Run lib req res = (Return None, res')" if "EmitOnce lib res entry = (None, res')"
    using r that by simp
  have g: "GetEOL lib entry = Inr t"
    using assms(8) eol by simp
  show "Encoder lib fmt entry w =
             (None,
              w @ ''Record is valid:'' @ [nl, nl] @
              Tabwriter fmt
                (''Value:'' @ [tab] @ Quote fmt (Value entry) @ [nl] @
                 (case Ttl entry of
                    None \<Rightarrow> []
                  | Some ttl \<Rightarrow> ''TTL:'' @ [tab] @ decimal (unat ttl) @ [nl]) @
                 ''Validity:'' @ [tab] @ FormatRFC3339 fmt t @ [nl]))"
    using g by (cases "Ttl entry") (simp_all add: Encoder_def)
qed

theorem signed_record_output_witness:
  "Run specLibrary \<lparr>Arguments = [''/ipns/rsa:key-bob''], Files = Some ''record-bob''\<rparr> []
     = (Return None, [entryBob])
   \<and> Encoder specLibrary stubFormatting entryBob []
       = (None,
          ''Record is valid:'' @ [nl, nl] @
          ''Value: '' @ [CHR 0x22] @ ''target-B'' @ [CHR 0x22, nl] @
          ''TTL: 60000000000'' @ [nl] @
          ''Validity: 2031-06-01T12:00:00Z'' @ [nl])
   \<and> Run specLibrary \<lparr>Arguments = [''ed:key-alice''], Files = Some ''record-alice''\<rparr> []
       = (Return None, [entryAlice])
   \<and> Encoder specLibrary stubFormatting entryAlice []
       = (None,
          ''Record is valid:'' @ [nl, nl] @
          ''Value: '' @ [CHR 0x22] @ ''target-A'' @ [CHR 0x22, nl] @
          ''Validity: 2030-01-01T00:00:00Z'' @ [nl])"
proof -
  let ?r1 = "\<lparr>Arguments = [''/ipns/rsa:key-bob''], Files = Some ''record-bob''\<rparr>"
  let ?r2 = "\<lparr>Arguments = [''ed:key-alice''], Files = Some ''record-alice''\<rparr>"
  have a1: "Arguments ?r1 = ''/ipns/rsa:key-bob'' # []" by simp
  have a2: "Arguments ?r2 = ''ed:key-alice'' # []" by simp
  have g1: "GetFileArg specLibrary (Files ?r1) = Inr ''record-bob''"
    by (simp add: specLibrary_def)
  have g2: "GetFileArg specLibrary (Files ?r2) = Inr ''record-alice''"
    by (simp add: specLibrary_def)
  have c1: "Copy specLibrary ''record-bob'' = Inr ''record-bob''"
    by (simp add: specLibrary_def)
  have c2: "Copy specLibrary ''record-alice'' = Inr ''record-alice''"
    by (simp add: specLibrary_def)
  have u1: "Unmarshal specLibrary ''record-bob'' = Inr entryBob"
    by (simp add: specLibrary_def stubUnmarshal_def)
  have u2: "Unmarshal specLibrary ''record-alice'' = Inr entryAlice"
    by (simp add: specLibrary_def stubUnmarshal_def)
  have d1: "Decode specLibrary (TrimPrefix ''/ipns/rsa:key-bob'' ''/ipns/'')
              = Inr (Digest ''key-bob'')"
    by (simp add: specLibrary_def stubDecode_def HasPrefix_def TrimPrefix_def)
  have d2: "Decode specLibrary (TrimPrefix ''ed:key-alice'' ''/ipns/'')
              = Inr (Inline ''key-alice'')"
    by (simp add: specLibrary_def stubDecode_def HasPrefix_def TrimPrefix_def)
  have k1: "ExtractPublicKey specLibrary (Digest ''key-bob'') = Inr ''key-bob''
            \<or> (ExtractPublicKey specLibrary (Digest ''key-bob'') = Inl KeyResolutionError
                \<and> PubKey entryBob \<noteq> []
                \<and> UnmarshalPublicKey specLibrary (PubKey entryBob) = Inr ''key-bob'')"
    by (simp add: specLibrary_def HasPrefix_def entryBob_def)
  have k2: "ExtractPublicKey specLibrary (Inline ''key-alice'') = Inr ''key-alice''
            \<or> (ExtractPublicKey specLibrary (Inline ''key-alice'') = Inl KeyResolutionError
                \<and> PubKey entryAlice \<noteq> []
                \<and> UnmarshalPublicKey specLibrary (PubKey entryAlice) = Inr ''key-alice'')"
    by (simp add: specLibrary_def)
  have v: "Validate specLibrary = specValidate stubCheck stubParse"
    by (simp add: specLibrary_def)
  have l: "GetEOL specLibrary = computeEOL stubParse"
    by (simp add: specLibrary_def)
  have s1: "stubCheck ''key-bob'' (canonicalPayload entryBob) (SignatureV2 entryBob)"
    by (simp add: stubCheck_def canonicalPayload_def entryBob_def)
  have s2: "stubCheck ''key-alice'' (canonicalPayload entryAlice) (SignatureV2 entryAlice)"
    by (simp add: stubCheck_def canonicalPayload_def entryAlice_def)
  have y1: "ValidityType entryBob = Some EOL"
    by (simp add: entryBob_def)
  have y2: "ValidityType entryAlice = Some EOL"
    by (simp add: entryAlice_def)
  have t1: "stubParse (Validity entryBob) = Some ''2031-06-01T12:00:00Z''"
    by (simp add: stubParse_def entryBob_def)
  have t2: "stubParse (Validity entryAlice) = Some ''2030-01-01T00:00:00Z''"
    by (simp add: stubParse_def entryAlice_def)
  have e1: "EmitOnce specLibrary [] entryBob = (None, [entryBob])"
    by (simp add: specLibrary_def)
  have e2: "EmitOnce specLibrary [] entryAlice = (None, [entryAlice])"
    by (simp add: specLibrary_def)
  have ttl1: "Ttl entryBob = Some 60000000000"
    by (simp add: entryBob_def)
  have ttl2: "Ttl entryAlice = None"
    by (simp add: entryAlice_def)
  have val1: "Value entryBob = ''target-B''"
    by (simp add: entryBob_def)
  have val2: "Value entryAlice = ''target-A''"
    by (simp add: entryAlice_def)
  note w1 = signed_record_output [where lib = specLibrary and check = stubCheck
      and parse = stubParse and res = "[]" and res' = "[entryBob]" and fmt = stubFormatting
      and w = "[]", OF a1 g1 c1 u1 d1 k1 v l s1 y1 t1]
  note w2 = signed_record_output [where lib = specLibrary and check = stubCheck
      and parse = stubParse and res = "[]" and res' = "[entryAlice]" and fmt = stubFormatting
      and w = "[]", OF a2 g2 c2 u2 d2 k2 v l s2 y2 t2]
  show ?thesis
    using w1 w2 e1 e2
    by (simp add: ttl1 ttl2 val1 val2 decimal_example stubFormatting_def stubQuote_def
        stubTabwriter_def tab_def nl_def)
qed

section \<open>The embedded key is not compared with the name\<close>

text \<open>
  Claim C1. The claim asks that a record whose embedded public key does not hash to the
  name be refused. In the fallback of \<open>Run\<close> nothing compares the key unmarshalled from
  the record with the name: once the name decodes and carries no key, the name is not
  used again. For two names without an extractable key and a record with a non-empty
  \<open>PubKey\<close> field the two runs end the same; so a record that is accepted under the name
  of its own key is accepted under every such name: once its embedded key unmarshals
  and it validates under that key, it is handed to the emitter.
\<close>

theorem Run_fallback_ignores_name:
  assumes "Decode lib (TrimPrefix k1 ''/ipns/'') = Inr id1"
    and "Decode lib (TrimPrefix k2 ''/ipns/'') = Inr id2"
    and "ExtractPublicKey lib id1 = Inl e1"
    and "ExtractPublicKey lib id2 = Inl e2"
    and "GetFileArg lib fs = Inr f"
    and "Copy lib f = Inr b"
    and "Unmarshal lib b = Inr entry"
    and "PubKey entry \<noteq> []"
  shows "Run lib \<lparr>Arguments = k1 # rest1, Files = fs\<rparr> res
           = Run lib \<lparr>Arguments = k2 # rest2, Files = fs\<rparr> res
         \<and> (UnmarshalPublicKey lib (PubKey entry) = Inr pub \<and> Validate lib pub entry = None
              \<longrightarrow> Run lib \<lparr>Arguments = k2 # rest2, Files = fs\<rparr> res
                    = apfst Return (EmitOnce lib res entry))"
proof -
  let ?r1 = "\<lparr>Arguments = k1 # rest1, Files = fs\<rparr>"
  let ?r2 = "\<lparr>Arguments = k2 # rest2, Files = fs\<rparr>"
  have r1: "resolveKey lib id1 entry = UnmarshalPublicKey lib (PubKey entry)"
    using assms(3,8) by (rule resolveKey_fallback)
  have r2: "resolveKey lib id2 entry = UnmarshalPublicKey lib (PubKey entry)"
    using assms(4,8) by (rule resolveKey_fallback)
  have run1: "Run lib ?r1 res =
      (case resolveKey lib id1 entry of
         Inl err \<Rightarrow> (Return (Some err), res)
       | Inr pub \<Rightarrow>
           (case Validate lib pub entry of
              Some err \<Rightarrow> (Return (Some err), res)
            | None \<Rightarrow> apfst Return (EmitOnce lib res entry)))"
    using assms(1,5,6,7) by (intro Run_after_decoding [where f = f and b = b]) simp_all
  have run2: "Run lib ?r2 res =
      (case resolveKey lib id2 entry of
         Inl err \<Rightarrow> (Return (Some err), res)
       | Inr pub \<Rightarrow>
           (case Validate lib pub entry of
              Some err \<Rightarrow> (Return (Some err), res)
            | None \<Rightarrow> apfst Return (EmitOnce lib res entry)))"
    using assms(2,5,6,7) by (intro Run_after_decoding [where f = f and b = b]) simp_all
  show ?thesis
    using run1 run2 r1 r2 by simp
qed

theorem Run_fallback_ignores_name_witness:
  "Decode stubLibrary (TrimPrefix ''/ipns/rsa:key-carol'' ''/ipns/'') = Inr (Digest ''key-carol'')
   \<and> UnmarshalPublicKey stubLibrary (PubKey entryBob) = Inr ''key-bob''
   \<and> stubIDFromPublicKey ''key-bob'' \<noteq> Digest ''key-carol''
   \<and> Validate stubLibrary ''key-bob'' entryBob = None
   \<and> Run stubLibrary \<lparr>Arguments = [''/ipns/rsa:key-bob''], Files = Some ''record-bob''\<rparr> (Open [])
       = Run stubLibrary \<lparr>Arguments = [''/ipns/rsa:key-carol''], Files = Some ''record-bob''\<rparr> (Open [])
   \<and> Run stubLibrary \<lparr>Arguments = [''/ipns/rsa:key-carol''], Files = Some ''record-bob''\<rparr> (Open [])
       = (Return None, Closed [entryBob])"
proof -
  have d1: "Decode stubLibrary (TrimPrefix ''/ipns/rsa:key-bob'' ''/ipns/'')
              = Inr (Digest ''key-bob'')"
    by (simp add: stub_defs)
  have d2: "Decode stubLibrary (TrimPrefix ''/ipns/rsa:key-carol'' ''/ipns/'')
              = Inr (Digest ''key-carol'')"
    by (simp add: stub_defs)
  have x1: "ExtractPublicKey stubLibrary (Digest ''key-bob'')
              = Inl ''public key is not embedded in peer ID''"
    by (simp add: stub_defs)
  have x2: "ExtractPublicKey stubLibrary (Digest ''key-carol'')
              = Inl ''public key is not embedded in peer ID''"
    by (simp add: stub_defs)
  have g: "GetFileArg stubLibrary (Some ''record-bob'') = Inr ''record-bob''"
    by (simp add: stub_defs)
  have c: "Copy stubLibrary ''record-bob'' = Inr ''record-bob''"
    by (simp add: stub_defs)
  have u: "Unmarshal stubLibrary ''record-bob'' = Inr entryBob"
    by (simp add: stubLibrary_def stubUnmarshal_def)
  have p: "PubKey entryBob \<noteq> []"
    by (simp add: entryBob_def)
  have m: "UnmarshalPublicKey stubLibrary (PubKey entryBob) = Inr ''key-bob''"
    by (simp add: stub_defs)
  have h: "stubIDFromPublicKey ''key-bob'' \<noteq> Digest ''key-carol''"
    by (simp add: stubIDFromPublicKey_def)
  have v: "Validate stubLibrary ''key-bob'' entryBob = None"
    by (simp add: stub_defs)
  have e: "EmitOnce stubLibrary (Open []) entryBob = (None, Closed [entryBob])"
    by (simp add: stubLibrary_def)
  show ?thesis
    using d2 m h v e
      Run_fallback_ignores_name [where ?rest1.0 = "[]" and ?rest2.0 = "[]"
        and res = "Open []" and pub = "''key-bob''", OF d1 d2 x1 x2 g c u p]
    by simp
qed

section \<open>Validity errors, with validation as the spec describes it\<close>

text \<open>
  Claim C5. With \<open>ipns.Validate\<close> as the spec describes it (the signature check under
  the current scheme, then the computation of the end of life): for every record whose
  signature verifies under the resolved key but whose validity type is not \<open>EOL\<close> or
  whose validity does not parse as a timestamp, the command returns \<open>ValidityError\<close>
  and emits nothing.
\<close>

theorem Run_validity_error:
  assumes "Arguments req = arg0 # rest"
    and "GetFileArg lib (Files req) = Inr f"
    and "Copy lib f = Inr b"
    and "Unmarshal lib b = Inr entry"
    and "Decode lib (TrimPrefix arg0 ''/ipns/'') = Inr pid"
    and "resolveKey lib pid entry = Inr pub"
    and "Validate lib = specValidate check parse"
    and "check pub (canonicalPayload entry) (SignatureV2 entry)"
    and "ValidityType entry \<noteq> Some EOL \<or> parse (Validity entry) = None"
  shows "verifyCurrent check pub entry = None
         \<and> Run lib req res = (Return (Some ValidityError), res)"
proof
  show s: "verifyCurrent check pub entry = None"
    using assms(8) by (simp add: verifyCurrent_def)
  have "computeEOL parse entry = Inl ValidityError"
    using assms(9) by (auto simp add: computeEOL_def)
  then have "Validate lib pub entry = Some ValidityError"
    using s assms(7) by (simp add: specValidate_def)
  then show "Run lib req res = (Return (Some ValidityError), res)"
    using Run_after_decoding [OF assms(1-5)] assms(6) by simp
qed

theorem Run_validity_error_witness:
  "stubCheck ''key-erin'' (canonicalPayload entryBadValidity) (SignatureV2 entryBadValidity)
   \<and> stubParse (Validity entryBadValidity) = None
   \<and> Run specLibrary \<lparr>Arguments = [''ed:key-erin''], Files = Some ''record-badvalidity''\<rparr> []
       = (Return (Some ValidityError), [])"
proof -
  let ?r = "\<lparr>Arguments = [''ed:key-erin''], Files = Some ''record-badvalidity''\<rparr>"
  have a: "Arguments ?r = ''ed:key-erin'' # []" by simp
  have g: "GetFileArg specLibrary (Files ?r) = Inr ''record-badvalidity''"
    by (simp add: specLibrary_def)
  have c: "Copy specLibrary ''record-badvalidity'' = Inr ''record-badvalidity''"
    by (simp add: specLibrary_def)
  have u: "Unmarshal specLibrary ''record-badvalidity'' = Inr entryBadValidity"
    by (simp add: specLibrary_def)
  have d: "Decode specLibrary (TrimPrefix ''ed:key-erin'' ''/ipns/'') = Inr (Inline ''key-erin'')"
    by (simp add: specLibrary_def stubDecode_def HasPrefix_def TrimPrefix_def)
  have k: "resolveKey specLibrary (Inline ''key-erin'') entryBadValidity = Inr ''key-erin''"
    by (simp add: resolveKey_def specLibrary_def)
  have v: "Validate specLibrary = specValidate stubCheck stubParse"
    by (simp add: specLibrary_def)
  have s: "stubCheck ''key-erin'' (canonicalPayload entryBadValidity) (SignatureV2 entryBadValidity)"
    by (simp add: stubCheck_def canonicalPayload_def entryBadValidity_def)
  have p: "stubParse (Validity entryBadValidity) = None"
    by (simp add: stubParse_def entryBadValidity_def)
  have q: "ValidityType entryBadValidity \<noteq> Some EOL \<or> stubParse (Validity entryBadValidity) = None"
    using p by simp
  show ?thesis
    using s p
      Run_validity_error [where lib = specLibrary and check = stubCheck and parse = stubParse
        and res = "[]", OF a g c u d k v s q]
    by simp
qed

end
